theory Spec2Isabelle
  imports Main "HOL-Library.Word" "HOL-Library.Sublist"
begin

section \<open>HapSNPeval: strings and the alignment loader\<close>

text \<open>
  The program is one function, \<^verbatim>\<open>main\<close> of \<^verbatim>\<open>HapSNPeval.cpp\<close>. Its local variables
  become fields of records, its loops become recursive functions, and the branches of
  the two loops become definitions named after the comments that introduce them in
  the source.
\<close>

subsection \<open>The string operations the source uses\<close>

text \<open>
  \<^verbatim>\<open>std::string::operator[]\<close>: the character at \<open>i\<close> below the length, the null
  character at \<open>i\<close> equal to the length, and undefined behaviour beyond (\<open>None\<close>).
\<close>

definition at :: "string \<Rightarrow> nat \<Rightarrow> char option" where
  "at s i = (if i < length s then Some (s ! i)
             else if i = length s then Some (CHR 0x00)
             else None)"

text \<open>
  \<^verbatim>\<open>s.find(str, pos)\<close>: the lowest position \<open>p \<ge> pos\<close> at which \<open>str\<close> occurs in
  \<open>s\<close>; \<open>None\<close> stands for \<^verbatim>\<open>string::npos\<close>. The empty string occurs at every
  position up to the length of \<open>s\<close>.
\<close>

fun search :: "string \<Rightarrow> string \<Rightarrow> nat \<Rightarrow> nat option" where
  "search str [] pos = (if str = [] then Some pos else None)"
| "search str (c # cs) pos =
     (if prefix str (c # cs) then Some pos else search str cs (pos + 1))"

definition find_str :: "string \<Rightarrow> string \<Rightarrow> nat \<Rightarrow> nat option" where
  "find_str s str pos = (if pos \<le> length s then search str (drop pos s) pos else None)"

text \<open>
  The lines that the loop \<^verbatim>\<open>while (input_alignment.good()) { getline(...); ... }\<close>
  hands to its body, for a stream holding the given characters: the pieces between
  newline characters, and the piece after the last newline even when it is empty
  (\<^verbatim>\<open>getline\<close> then clears \<^verbatim>\<open>line_buffer\<close>, sets \<^verbatim>\<open>eofbit\<close> and the body runs
  once more on the empty line).
\<close>

fun getlines :: "string \<Rightarrow> string list" where
  "getlines [] = [[]]"
| "getlines (c # cs) =
     (if c = CHR 0x0A then [] # getlines cs
      else (c # hd (getlines cs)) # tl (getlines cs))"

subsection \<open>Reading the alignment records (lines 112 to 152)\<close>

record alignment =
  true_one_header :: string
  true_two_header :: string
  test_one_header :: string
  test_two_header :: string
  true_one :: string
  true_two :: string
  test_one :: string
  test_two :: string
  record_num :: "16 word"

definition initial_alignment :: alignment where
  "initial_alignment =
     \<lparr>true_one_header = [], true_two_header = [],
      test_one_header = [], test_two_header = [],
      true_one = [], true_two = [], test_one = [], test_two = [],
      record_num = 0\<rparr>"

text \<open>The body of the reading loop on one \<^verbatim>\<open>line_buffer\<close>.\<close>

definition read_line :: "string \<Rightarrow> string \<Rightarrow> alignment \<Rightarrow> alignment" where
  "read_line true_prefix line_buffer al =
     (if at line_buffer 0 = Some (CHR ''>'') then
        (if find_str line_buffer true_prefix 1 \<noteq> None then
           (if true_one_header al = []
            then al\<lparr>true_one_header := drop 1 line_buffer, record_num := 1\<rparr>
            else al\<lparr>true_two_header := drop 1 line_buffer, record_num := 2\<rparr>)
         else
           (if test_one_header al = []
            then al\<lparr>test_one_header := drop 1 line_buffer, record_num := 3\<rparr>
            else al\<lparr>test_two_header := drop 1 line_buffer, record_num := 4\<rparr>))
      else
        (if record_num al = 1 then al\<lparr>true_one := true_one al @ line_buffer\<rparr>
         else if record_num al = 2 then al\<lparr>true_two := true_two al @ line_buffer\<rparr>
         else if record_num al = 3 then al\<lparr>test_one := test_one al @ line_buffer\<rparr>
         else if record_num al = 4 then al\<lparr>test_two := test_two al @ line_buffer\<rparr>
         else al))"

fun read_records :: "string \<Rightarrow> string list \<Rightarrow> alignment \<Rightarrow> alignment" where
  "read_records true_prefix [] al = al"
| "read_records true_prefix (line_buffer # rest) al =
     read_records true_prefix rest (read_line true_prefix line_buffer al)"

section \<open>HapSNPeval: the column classifier (lines 161 to 255)\<close>

text \<open>
  The two phase identities are \<^verbatim>\<open>unsigned short\<close> (0 unset, 1 and 2 the true
  haplotype last matched) and the eight counters are \<^verbatim>\<open>unsigned long\<close>; they are
  words of 16 and 64 bits, so \<open>+ 1\<close> wraps as it does in the source.
  The lines written to standard output under \<^verbatim>\<open>position_output_flag\<close> are kept as a
  list of events: which message, and the 1-based position \<^verbatim>\<open>i+1\<close>.
\<close>

datatype message =
    False_indel
  | False_SNP
  | Test_one_switches
  | Test_two_switches
  | Test_one_no_match
  | Test_two_no_match
  | True_indel
  | False_SNP_due_to_test_one
  | False_SNP_due_to_test_two

record tally =
  test_one_id :: "16 word"
  test_two_id :: "16 word"
  test_one_switches :: "64 word"
  test_two_switches :: "64 word"
  test_one_false_snps :: "64 word"
  test_two_false_snps :: "64 word"
  test_one_false_indels :: "64 word"
  test_two_false_indels :: "64 word"
  test_one_bad_calls :: "64 word"
  test_two_bad_calls :: "64 word"
  printed :: "(message \<times> nat) list"

definition initial_tally :: tally where
  "initial_tally =
     \<lparr>test_one_id = 0, test_two_id = 0,
      test_one_switches = 0, test_two_switches = 0,
      test_one_false_snps = 0, test_two_false_snps = 0,
      test_one_false_indels = 0, test_two_false_indels = 0,
      test_one_bad_calls = 0, test_two_bad_calls = 0,
      printed = []\<rparr>"

definition gap :: char where
  "gap = CHR ''-''"

text \<open>\<^verbatim>\<open>if (position_output_flag) { cout << ... << i+1 << endl; }\<close>\<close>

definition report :: "int \<Rightarrow> message \<Rightarrow> nat \<Rightarrow> tally \<Rightarrow> tally" where
  "report position_output_flag m i st =
     (if position_output_flag \<noteq> 0 then st\<lparr>printed := printed st @ [(m, i + 1)]\<rparr> else st)"

text \<open>
  Lines 163 to 188, the branch \<^verbatim>\<open>true_one[i] == true_two[i]\<close>. The arguments
  \<open>a\<close>, \<open>c\<close>, \<open>d\<close> are \<^verbatim>\<open>true_one[i]\<close>, \<^verbatim>\<open>test_one[i]\<close>, \<^verbatim>\<open>test_two[i]\<close>.
\<close>

definition homozygous_site :: "int \<Rightarrow> nat \<Rightarrow> char \<Rightarrow> char \<Rightarrow> char \<Rightarrow> tally \<Rightarrow> tally" where
  "homozygous_site pof i a c d st =
     (if c = gap \<or> d = gap then
        (let st1 = (if c \<noteq> gap
                    then report pof False_indel i
                           (st\<lparr>test_one_false_indels := test_one_false_indels st + 1\<rparr>)
                    else st)
         in (if d \<noteq> gap
             then report pof False_indel i
                    (st1\<lparr>test_two_false_indels := test_two_false_indels st1 + 1\<rparr>)
             else st1))
      else if c \<noteq> d then
        (if c \<noteq> a
         then report pof False_SNP i (st\<lparr>test_one_false_snps := test_one_false_snps st + 1\<rparr>)
         else report pof False_SNP i (st\<lparr>test_two_false_snps := test_two_false_snps st + 1\<rparr>))
      else st)"

text \<open>Lines 192 to 213: the first test haplotype at a heterozygous SNP.\<close>

definition check_test_one :: "int \<Rightarrow> nat \<Rightarrow> char \<Rightarrow> char \<Rightarrow> char \<Rightarrow> tally \<Rightarrow> tally" where
  "check_test_one pof i a b c st =
     (if c = a then
        (let st1 = (if test_one_id st = 2
                    then report pof Test_one_switches i
                           (st\<lparr>test_one_switches := test_one_switches st + 1\<rparr>)
                    else st)
         in st1\<lparr>test_one_id := 1\<rparr>)
      else if c = b then
        (let st1 = (if test_one_id st = 1
                    then report pof Test_one_switches i
                           (st\<lparr>test_one_switches := test_one_switches st + 1\<rparr>)
                    else st)
         in st1\<lparr>test_one_id := 2\<rparr>)
      else report pof Test_one_no_match i
             (st\<lparr>test_one_bad_calls := test_one_bad_calls st + 1\<rparr>))"

text \<open>Lines 215 to 236: the second test haplotype at a heterozygous SNP.\<close>

definition check_test_two :: "int \<Rightarrow> nat \<Rightarrow> char \<Rightarrow> char \<Rightarrow> char \<Rightarrow> tally \<Rightarrow> tally" where
  "check_test_two pof i a b d st =
     (if d = a then
        (let st1 = (if test_two_id st = 2
                    then report pof Test_two_switches i
                           (st\<lparr>test_two_switches := test_two_switches st + 1\<rparr>)
                    else st)
         in st1\<lparr>test_two_id := 1\<rparr>)
      else if d = b then
        (let st1 = (if test_two_id st = 1
                    then report pof Test_two_switches i
                           (st\<lparr>test_two_switches := test_two_switches st + 1\<rparr>)
                    else st)
         in st1\<lparr>test_two_id := 2\<rparr>)
      else report pof Test_two_no_match i
             (st\<lparr>test_two_bad_calls := test_two_bad_calls st + 1\<rparr>))"

definition heterozygous_snp ::
  "int \<Rightarrow> nat \<Rightarrow> char \<Rightarrow> char \<Rightarrow> char \<Rightarrow> char \<Rightarrow> tally \<Rightarrow> tally" where
  "heterozygous_snp pof i a b c d st =
     check_test_two pof i a b d (check_test_one pof i a b c st)"

text \<open>Lines 237 to 253: one of the true bases is the gap symbol.\<close>

definition indel :: "int \<Rightarrow> nat \<Rightarrow> char \<Rightarrow> char \<Rightarrow> char \<Rightarrow> char \<Rightarrow> tally \<Rightarrow> tally" where
  "indel pof i a b c d st =
     (let st0 = report pof True_indel i st
      in if c \<noteq> a \<and> c \<noteq> b then
           report pof False_SNP_due_to_test_one i
             (st0\<lparr>test_one_false_snps := test_one_false_snps st0 + 1\<rparr>)
         else if d \<noteq> a \<and> d \<noteq> b then
           report pof False_SNP_due_to_test_two i
             (st0\<lparr>test_two_false_snps := test_two_false_snps st0 + 1\<rparr>)
         else st0)"

text \<open>
  The body of the column loop, on the column
  \<open>(a, b, c, d) = (true_one[i], true_two[i], test_one[i], test_two[i])\<close>.
\<close>

definition classify_column ::
  "int \<Rightarrow> nat \<Rightarrow> char \<Rightarrow> char \<Rightarrow> char \<Rightarrow> char \<Rightarrow> tally \<Rightarrow> tally" where
  "classify_column pof i a b c d st =
     (if a = b then homozygous_site pof i a c d st
      else if a \<noteq> gap \<and> b \<noteq> gap then heterozygous_snp pof i a b c d st
      else indel pof i a b c d st)"

text \<open>
  In the source \<^verbatim>\<open>test_two[i]\<close> is read in every branch but one: at an indel column
  whose \<^verbatim>\<open>test_one[i]\<close> matches neither true base, the \<^verbatim>\<open>else if\<close> of line 247 is
  not evaluated.
\<close>

definition reads_test_two :: "char \<Rightarrow> char \<Rightarrow> char \<Rightarrow> bool" where
  "reads_test_two a b c \<longleftrightarrow> \<not> (a \<noteq> b \<and> (a = gap \<or> b = gap) \<and> c \<noteq> a \<and> c \<noteq> b)"

text \<open>
  The column loop, \<^verbatim>\<open>for (size_t i = 0; i < true_one.length(); i++)\<close>, from index
  \<open>i\<close> on. It reads the three other sequences at \<open>i\<close> whatever their length; the result
  is \<open>None\<close> when such a read has undefined behaviour.
\<close>

function iterate :: "int \<Rightarrow> alignment \<Rightarrow> nat \<Rightarrow> tally \<Rightarrow> tally option" where
  "iterate pof al i st =
     (if i < length (true_one al) then
        (case at (true_two al) i of
           None \<Rightarrow> None
         | Some b \<Rightarrow>
            (case at (test_one al) i of
               None \<Rightarrow> None
             | Some c \<Rightarrow>
                (if reads_test_two (true_one al ! i) b c then
                   (case at (test_two al) i of
                      None \<Rightarrow> None
                    | Some d \<Rightarrow>
                        iterate pof al (i + 1)
                          (classify_column pof i (true_one al ! i) b c d st))
                 else
                   iterate pof al (i + 1)
                     (classify_column pof i (true_one al ! i) b c c st))))
      else Some st)"
  by pat_completeness auto
termination
  by (relation "measure (\<lambda>(pof, al, i, st). length (true_one al) - i)") auto

section \<open>HapSNPeval: the whole run\<close>

text \<open>
  \<^verbatim>\<open>getopt_long\<close> belongs to the C library. One call either stores 1 through the
  flag pointer of a long option and returns 0 (\<^verbatim>\<open>--help\<close>, \<^verbatim>\<open>--position_output\<close>), or
  returns a value with \<^verbatim>\<open>optarg\<close> set or null. The run takes the results of the
  successive calls, up to the one that returns -1, as its input.
\<close>

datatype getopt_result =
    Long_help
  | Long_position_output
  | Returns int "string option"

record arguments =
  helpflag :: int
  position_output_flag :: int
  true_prefix :: string

definition initial_arguments :: arguments where
  "initial_arguments = \<lparr>helpflag = 0, position_output_flag = 0, true_prefix = []\<rparr>"

text \<open>The body of the argument loop (lines 64 to 90).\<close>

fun parse_option :: "getopt_result \<Rightarrow> arguments \<Rightarrow> arguments" where
  "parse_option Long_help ar = ar\<lparr>helpflag := 1\<rparr>"
| "parse_option Long_position_output ar = ar\<lparr>position_output_flag := 1\<rparr>"
| "parse_option (Returns optvalue optarg) ar =
     (if optvalue = 0 then ar
      else if optvalue = of_char (CHR ''h'') then ar\<lparr>helpflag := 1\<rparr>
      else if optvalue = of_char (CHR ''o'') then ar\<lparr>position_output_flag := 1\<rparr>
      else if optvalue = of_char (CHR ''p'') then
        (case optarg of
           None \<Rightarrow> ar\<lparr>helpflag := 3\<rparr>
         | Some s \<Rightarrow> ar\<lparr>true_prefix := s\<rparr>)
      else ar\<lparr>helpflag := 4\<rparr>)"

fun parse_options :: "getopt_result list \<Rightarrow> arguments \<Rightarrow> arguments" where
  "parse_options [] ar = ar"
| "parse_options (r # rs) ar = parse_options rs (parse_option r ar)"

text \<open>
  An opened input file: the characters it delivers, and whether the stream stops on a
  read error (\<^verbatim>\<open>badbit\<close>, so that \<^verbatim>\<open>eof()\<close> is false after the loop) instead of
  the end of the file.
\<close>

record input_file =
  characters :: string
  read_error :: bool

text \<open>
  How the run ends: \<^verbatim>\<open>return helpflag\<close> after the usage text (line 106),
  \<^verbatim>\<open>return 7\<close> (line 156), \<^verbatim>\<open>return 0\<close> after the eight result lines (line 267), or
  undefined behaviour in the column loop.
\<close>

datatype outcome =
    Usage int
  | Read_failure
  | Results tally
  | Out_of_range

fun exit_code :: "outcome \<Rightarrow> int option" where
  "exit_code (Usage h) = Some h"
| "exit_code Read_failure = Some 7"
| "exit_code (Results st) = Some 0"
| "exit_code Out_of_range = None"

text \<open>
  \<open>operand\<close> is \<^verbatim>\<open>argv[optind]\<close> when \<^verbatim>\<open>optind < argc\<close>; \<open>open_file\<close> gives the file
  that \<^verbatim>\<open>input_alignment.open\<close> finds under a path, if it can be opened. Lines 91 to
  107 store 5 or 6 in \<^verbatim>\<open>helpflag\<close> and then return \<^verbatim>\<open>helpflag\<close> when it is not 0.
\<close>

definition main ::
  "getopt_result list \<Rightarrow> string option \<Rightarrow> (string \<Rightarrow> input_file option) \<Rightarrow> outcome" where
  "main results operand open_file =
     (let ar = parse_options results initial_arguments
      in case operand of
           None \<Rightarrow> Usage (helpflag (ar\<lparr>helpflag := 6\<rparr>))
         | Some input_alignment_file \<Rightarrow>
            (case open_file input_alignment_file of
               None \<Rightarrow> Usage (helpflag (ar\<lparr>helpflag := 5\<rparr>))
             | Some input_alignment \<Rightarrow>
                (if helpflag ar \<noteq> 0 then Usage (helpflag ar)
                 else
                   (let al = read_records (true_prefix ar)
                               (getlines (characters input_alignment)) initial_alignment
                    in if read_error input_alignment then Read_failure
                       else
                         (case iterate (position_output_flag ar) al 0 initial_tally of
                            None \<Rightarrow> Out_of_range
                          | Some st \<Rightarrow> Results st)))))"

section \<open>The vocabulary of the specification\<close>

subsection \<open>Counters and phase identities\<close>

text \<open>The eight counters of a tally, in the order of the result lines, and its two phase identities.\<close>

definition counters :: "tally \<Rightarrow> 64 word list" where
  "counters st =
     [test_one_switches st, test_two_switches st,
      test_one_false_snps st, test_two_false_snps st,
      test_one_false_indels st, test_two_false_indels st,
      test_one_bad_calls st, test_two_bad_calls st]"

definition phase_ids :: "tally \<Rightarrow> 16 word \<times> 16 word" where
  "phase_ids st = (test_one_id st, test_two_id st)"

subsection \<open>Phase switches, as the specification counts them\<close>

text \<open>
  The specification speaks of the true haplotype that a test base matches at a
  heterozygous SNP column, and of the nearest preceding heterozygous SNP column at
  which the test haplotype matched one. These definitions follow its words, on the
  aligned sequences and a column index; they do not look at the program.
\<close>

datatype identity = Matches_true_one | Matches_true_two

definition het_snp_column :: "string \<Rightarrow> string \<Rightarrow> nat \<Rightarrow> bool" where
  "het_snp_column t1 t2 i \<longleftrightarrow> t1 ! i \<noteq> t2 ! i \<and> t1 ! i \<noteq> gap \<and> t2 ! i \<noteq> gap"

definition matched_at :: "string \<Rightarrow> string \<Rightarrow> string \<Rightarrow> nat \<Rightarrow> identity option" where
  "matched_at t1 t2 s i =
     (if het_snp_column t1 t2 i then
        (if s ! i = t1 ! i then Some Matches_true_one
         else if s ! i = t2 ! i then Some Matches_true_two
         else None)
      else None)"

definition previous_match :: "string \<Rightarrow> string \<Rightarrow> string \<Rightarrow> nat \<Rightarrow> identity option" where
  "previous_match t1 t2 s i =
     (case filter (\<lambda>j. matched_at t1 t2 s j \<noteq> None) (rev [0..<i]) of
        [] \<Rightarrow> None
      | j # _ \<Rightarrow> matched_at t1 t2 s j)"

definition switch_at :: "string \<Rightarrow> string \<Rightarrow> string \<Rightarrow> nat \<Rightarrow> bool" where
  "switch_at t1 t2 s i \<longleftrightarrow>
     (case matched_at t1 t2 s i of
        None \<Rightarrow> False
      | Some m \<Rightarrow>
         (case previous_match t1 t2 s i of
            None \<Rightarrow> False
          | Some p \<Rightarrow> m \<noteq> p))"

definition switch_count_spec :: "string \<Rightarrow> string \<Rightarrow> string \<Rightarrow> nat" where
  "switch_count_spec t1 t2 s = length (filter (switch_at t1 t2 s) [0..<length t1])"

subsection \<open>FASTA records\<close>

text \<open>
  A record is a header line, which begins with the marker \<open>>\<close>, and the sequence lines
  that follow it up to the next header line. It is kept as the header text after the
  marker and the concatenated sequence lines. A record is a true-haplotype record when
  its header text contains the prefix as a substring.
\<close>

definition is_header :: "string \<Rightarrow> bool" where
  "is_header l \<longleftrightarrow> l \<noteq> [] \<and> hd l = CHR ''>''"

fun fasta_records :: "string list \<Rightarrow> (string \<times> string) list" where
  "fasta_records [] = []"
| "fasta_records (l # ls) =
     (if is_header l
      then (drop 1 l, concat (takeWhile (\<lambda>x. \<not> is_header x) ls)) # fasta_records ls
      else fasta_records ls)"

definition names_true :: "string \<Rightarrow> string \<times> string \<Rightarrow> bool" where
  "names_true p r \<longleftrightarrow> sublist p (fst r)"

definition true_records :: "string \<Rightarrow> string list \<Rightarrow> (string \<times> string) list" where
  "true_records p ls = filter (names_true p) (fasta_records ls)"

definition test_records :: "string \<Rightarrow> string list \<Rightarrow> (string \<times> string) list" where
  "test_records p ls = filter (\<lambda>r. \<not> names_true p r) (fasta_records ls)"

subsection \<open>The command line\<close>

text \<open>
  What one option of the command line is, as the user wrote it, and what the C library's
  \<^verbatim>\<open>getopt_long\<close> returns for it under the option string \<^verbatim>\<open>"hop:"\<close> and the table
  \<^verbatim>\<open>long_options\<close> of lines 44 to 50. The option string does not begin with a colon,
  so an option that lacks its required argument is reported like an option that is not
  recognised: \<^verbatim>\<open>getopt_long\<close> prints its own message and returns the character
  \<open>?\<close>, with \<^verbatim>\<open>optarg\<close> null. It never returns \<open>p\<close> with \<^verbatim>\<open>optarg\<close> null.
\<close>

datatype command_line_option =
    Short_help
  | Long_help_option
  | Short_position_output
  | Long_position_output_option
  | True_prefix_with string
  | True_prefix_without_argument
  | Unrecognised_option

fun getopt_long :: "command_line_option \<Rightarrow> getopt_result" where
  "getopt_long Short_help = Returns (of_char (CHR ''h'')) None"
| "getopt_long Long_help_option = Long_help"
| "getopt_long Short_position_output = Returns (of_char (CHR ''o'')) None"
| "getopt_long Long_position_output_option = Long_position_output"
| "getopt_long (True_prefix_with s) = Returns (of_char (CHR ''p'')) (Some s)"
| "getopt_long True_prefix_without_argument = Returns (of_char (CHR ''?'')) None"
| "getopt_long Unrecognised_option = Returns (of_char (CHR ''?'')) None"

section \<open>Auxiliary notions for the proofs\<close>

text \<open>The phase identity of the specification as the program stores it.\<close>

fun encode :: "identity option \<Rightarrow> 16 word" where
  "encode None = 0"
| "encode (Some Matches_true_one) = 1"
| "encode (Some Matches_true_two) = 2"

definition switches_before :: "string \<Rightarrow> string \<Rightarrow> string \<Rightarrow> nat \<Rightarrow> nat" where
  "switches_before t1 t2 s i = length (filter (switch_at t1 t2 s) [0..<i])"

text \<open>What holds of the tally when the column loop is about to read column \<open>i\<close>.\<close>

definition loop_inv :: "alignment \<Rightarrow> nat \<Rightarrow> tally \<Rightarrow> bool" where
  "loop_inv al i st \<longleftrightarrow>
     test_one_id st = encode (previous_match (true_one al) (true_two al) (test_one al) i)
   \<and> test_two_id st = encode (previous_match (true_one al) (true_two al) (test_two al) i)
   \<and> test_one_switches st =
       of_nat (switches_before (true_one al) (true_two al) (test_one al) i)
   \<and> test_two_switches st =
       of_nat (switches_before (true_one al) (true_two al) (test_two al) i)"

text \<open>
  The two branches of the reading loop: a header line with text \<open>h\<close> opens a record,
  any other line is appended to the record that is open. A whole record is loaded by
  the first followed by the second.
\<close>

definition start_record :: "string \<Rightarrow> string \<Rightarrow> alignment \<Rightarrow> alignment" where
  "start_record p h al =
     (if sublist p h then
        (if true_one_header al = [] then al\<lparr>true_one_header := h, record_num := 1\<rparr>
         else al\<lparr>true_two_header := h, record_num := 2\<rparr>)
      else
        (if test_one_header al = [] then al\<lparr>test_one_header := h, record_num := 3\<rparr>
         else al\<lparr>test_two_header := h, record_num := 4\<rparr>))"

definition append_current :: "string \<Rightarrow> alignment \<Rightarrow> alignment" where
  "append_current s al =
     (if record_num al = 1 then al\<lparr>true_one := true_one al @ s\<rparr>
      else if record_num al = 2 then al\<lparr>true_two := true_two al @ s\<rparr>
      else if record_num al = 3 then al\<lparr>test_one := test_one al @ s\<rparr>
      else if record_num al = 4 then al\<lparr>test_two := test_two al @ s\<rparr>
      else al)"

definition load_record :: "string \<Rightarrow> string \<times> string \<Rightarrow> alignment \<Rightarrow> alignment" where
  "load_record p r al = append_current (snd r) (start_record p (fst r) al)"

text \<open>The two slots of one header class, each a header and a sequence.\<close>

type_synonym slots = "(string \<times> string) \<times> (string \<times> string)"

definition true_slots :: "alignment \<Rightarrow> slots" where
  "true_slots al = ((true_one_header al, true_one al), (true_two_header al, true_two al))"

definition test_slots :: "alignment \<Rightarrow> slots" where
  "test_slots al = ((test_one_header al, test_one al), (test_two_header al, test_two al))"

fun fill :: "string \<times> string \<Rightarrow> slots \<Rightarrow> slots" where
  "fill (h, s) ((h1, s1), (h2, s2)) =
     (if h1 = [] then ((h, s1 @ s), (h2, s2)) else ((h1, s1), (h, s2 @ s)))"

section \<open>One column\<close>

lemma report_fields:
  "test_one_id (report pof m i st) = test_one_id st"
  "test_two_id (report pof m i st) = test_two_id st"
  "test_one_switches (report pof m i st) = test_one_switches st"
  "test_two_switches (report pof m i st) = test_two_switches st"
  "test_one_false_snps (report pof m i st) = test_one_false_snps st"
  "test_two_false_snps (report pof m i st) = test_two_false_snps st"
  "test_one_false_indels (report pof m i st) = test_one_false_indels st"
  "test_two_false_indels (report pof m i st) = test_two_false_indels st"
  "test_one_bad_calls (report pof m i st) = test_one_bad_calls st"
  "test_two_bad_calls (report pof m i st) = test_two_bad_calls st"
  by (simp_all add: report_def)

text \<open>
  Claim C1, as the program has it. At a column where the true bases differ and one of
  them is the gap symbol, test haplotype 1 is charged a false SNP when its base matches
  neither true base; test haplotype 2 is charged one when its base matches neither true
  base and the base of test haplotype 1 matches one of them. So at most one of the two
  is charged at a column, no other counter changes, and the phase identities stay.
\<close>

theorem C1_indel_false_snp_amended:
  assumes "a \<noteq> b" and "a = gap \<or> b = gap"
  shows "(c \<noteq> a \<and> c \<noteq> b \<longrightarrow>
            counters (classify_column pof i a b c d st) =
            counters (st\<lparr>test_one_false_snps := test_one_false_snps st + 1\<rparr>))
       \<and> (\<not> (c \<noteq> a \<and> c \<noteq> b) \<and> d \<noteq> a \<and> d \<noteq> b \<longrightarrow>
            counters (classify_column pof i a b c d st) =
            counters (st\<lparr>test_two_false_snps := test_two_false_snps st + 1\<rparr>))
       \<and> (\<not> (c \<noteq> a \<and> c \<noteq> b) \<and> \<not> (d \<noteq> a \<and> d \<noteq> b) \<longrightarrow>
            counters (classify_column pof i a b c d st) = counters st)
       \<and> phase_ids (classify_column pof i a b c d st) = phase_ids st"
  using assms
  by (auto simp add: classify_column_def indel_def Let_def counters_def phase_ids_def
        report_fields)

theorem C1_indel_false_snp_amended_witness:
  "CHR ''A'' \<noteq> gap
   \<and> counters (classify_column 1 0 (CHR ''A'') gap (CHR ''C'') (CHR ''G'') initial_tally) =
       counters (initial_tally\<lparr>test_one_false_snps := 1\<rparr>)
   \<and> counters (classify_column 1 0 (CHR ''A'') gap (CHR ''A'') (CHR ''G'') initial_tally) =
       counters (initial_tally\<lparr>test_two_false_snps := 1\<rparr>)"
  using C1_indel_false_snp_amended
          [where a = "CHR ''A''" and b = gap and c = "CHR ''C''" and d = "CHR ''G''" and pof = 1 and i = 0 and st = initial_tally]
        C1_indel_false_snp_amended
          [where a = "CHR ''A''" and b = gap and c = "CHR ''A''" and d = "CHR ''G''" and pof = 1 and i = 0 and st = initial_tally]
  by (simp add: gap_def initial_tally_def)

text \<open>
  Claim C1 as the specification states it fails: at the column with true bases \<open>A\<close>
  and the gap symbol and test bases \<open>C\<close> and \<open>G\<close>, both test bases match neither true
  base, and the false SNP count of test haplotype 2 is not incremented.
\<close>

theorem C1_both_tests_charged_counterexample:
  "CHR ''A'' \<noteq> gap \<and> CHR ''G'' \<noteq> CHR ''A'' \<and> CHR ''G'' \<noteq> gap
   \<and> test_two_false_snps
        (classify_column 0 0 (CHR ''A'') gap (CHR ''C'') (CHR ''G'') initial_tally)
       \<noteq> test_two_false_snps initial_tally + 1"
  by (simp add: classify_column_def indel_def Let_def gap_def report_def initial_tally_def)

text \<open>
  Claim C4. At a column where the true bases agree and at least one test base is the
  gap symbol, the test haplotype whose base is not the gap symbol has its false indel
  count incremented by 1 and nothing else is counted; when both test bases are the gap
  symbol the tally does not change.
\<close>

theorem C4_homozygous_false_indel:
  assumes "a = b" and "c = gap \<or> d = gap"
  shows "(c \<noteq> gap \<longrightarrow>
            counters (classify_column pof i a b c d st) =
            counters (st\<lparr>test_one_false_indels := test_one_false_indels st + 1\<rparr>))
       \<and> (d \<noteq> gap \<longrightarrow>
            counters (classify_column pof i a b c d st) =
            counters (st\<lparr>test_two_false_indels := test_two_false_indels st + 1\<rparr>))
       \<and> (c = gap \<and> d = gap \<longrightarrow> classify_column pof i a b c d st = st)
       \<and> phase_ids (classify_column pof i a b c d st) = phase_ids st"
  using assms
  by (auto simp add: classify_column_def homozygous_site_def counters_def phase_ids_def
        report_fields)

theorem C4_homozygous_false_indel_witness:
  "counters (classify_column 1 0 (CHR ''A'') (CHR ''A'') gap (CHR ''A'') initial_tally) =
     counters (initial_tally\<lparr>test_two_false_indels := 1\<rparr>)
   \<and> classify_column 1 0 (CHR ''A'') (CHR ''A'') gap gap initial_tally = initial_tally"
  using C4_homozygous_false_indel
          [where a = "CHR ''A''" and b = "CHR ''A''" and c = gap and d = "CHR ''A''" and pof = 1 and i = 0 and st = initial_tally]
        C4_homozygous_false_indel
          [where a = "CHR ''A''" and b = "CHR ''A''" and c = gap and d = gap and pof = 1 and i = 0 and st = initial_tally]
  by (simp add: gap_def initial_tally_def)

text \<open>
  Claim C5. At a column where the true bases agree, neither test base is the gap symbol
  and the test bases differ, exactly one false SNP count is incremented: that of test
  haplotype 1 when its base differs from the true base, otherwise that of test
  haplotype 2. No other counter changes and the phase identities stay.
\<close>

theorem C5_homozygous_false_snp:
  assumes "a = b" and "c \<noteq> gap" and "d \<noteq> gap" and "c \<noteq> d"
  shows "(c \<noteq> a \<longrightarrow>
            counters (classify_column pof i a b c d st) =
            counters (st\<lparr>test_one_false_snps := test_one_false_snps st + 1\<rparr>))
       \<and> (c = a \<longrightarrow>
            counters (classify_column pof i a b c d st) =
            counters (st\<lparr>test_two_false_snps := test_two_false_snps st + 1\<rparr>))
       \<and> phase_ids (classify_column pof i a b c d st) = phase_ids st"
  using assms
  by (simp add: classify_column_def homozygous_site_def counters_def phase_ids_def
        report_fields)

theorem C5_homozygous_false_snp_witness:
  "CHR ''C'' \<noteq> gap \<and> CHR ''A'' \<noteq> gap
   \<and> counters (classify_column 1 0 (CHR ''A'') (CHR ''A'') (CHR ''C'') (CHR ''A'') initial_tally)
       = counters (initial_tally\<lparr>test_one_false_snps := 1\<rparr>)
   \<and> counters (classify_column 1 0 (CHR ''A'') (CHR ''A'') (CHR ''A'') (CHR ''C'') initial_tally)
       = counters (initial_tally\<lparr>test_two_false_snps := 1\<rparr>)"
  using C5_homozygous_false_snp
          [where a = "CHR ''A''" and b = "CHR ''A''" and c = "CHR ''C''" and d = "CHR ''A''" and pof = 1 and i = 0 and st = initial_tally]
        C5_homozygous_false_snp
          [where a = "CHR ''A''" and b = "CHR ''A''" and c = "CHR ''A''" and d = "CHR ''C''" and pof = 1 and i = 0 and st = initial_tally]
  by (simp add: gap_def initial_tally_def)

text \<open>
  Claim C6. At a heterozygous SNP column, a test haplotype whose base equals neither
  true base has its bad call count incremented by 1 and keeps its phase identity.
\<close>

theorem C6_bad_call_keeps_identity:
  assumes "a \<noteq> b" and "a \<noteq> gap" and "b \<noteq> gap"
  shows "(c \<noteq> a \<and> c \<noteq> b \<longrightarrow>
            test_one_bad_calls (classify_column pof i a b c d st) = test_one_bad_calls st + 1
          \<and> test_one_id (classify_column pof i a b c d st) = test_one_id st)
       \<and> (d \<noteq> a \<and> d \<noteq> b \<longrightarrow>
            test_two_bad_calls (classify_column pof i a b c d st) = test_two_bad_calls st + 1
          \<and> test_two_id (classify_column pof i a b c d st) = test_two_id st)"
  using assms
  by (auto simp add: classify_column_def heterozygous_snp_def check_test_one_def
        check_test_two_def Let_def report_fields)

theorem C6_bad_call_keeps_identity_witness:
  "CHR ''A'' \<noteq> gap \<and> CHR ''C'' \<noteq> gap
   \<and> test_one_bad_calls
        (classify_column 1 0 (CHR ''A'') (CHR ''C'') (CHR ''G'') (CHR ''N'')
           (initial_tally\<lparr>test_one_id := 2, test_two_id := 1\<rparr>)) = 1
   \<and> test_one_id
        (classify_column 1 0 (CHR ''A'') (CHR ''C'') (CHR ''G'') (CHR ''N'')
           (initial_tally\<lparr>test_one_id := 2, test_two_id := 1\<rparr>)) = 2
   \<and> test_two_bad_calls
        (classify_column 1 0 (CHR ''A'') (CHR ''C'') (CHR ''G'') (CHR ''N'')
           (initial_tally\<lparr>test_one_id := 2, test_two_id := 1\<rparr>)) = 1
   \<and> test_two_id
        (classify_column 1 0 (CHR ''A'') (CHR ''C'') (CHR ''G'') (CHR ''N'')
           (initial_tally\<lparr>test_one_id := 2, test_two_id := 1\<rparr>)) = 1"
  using C6_bad_call_keeps_identity
          [where a = "CHR ''A''" and b = "CHR ''C''" and c = "CHR ''G''" and d = "CHR ''N''" and pof = 1 and i = 0 and st = "initial_tally\<lparr>test_one_id := 2, test_two_id := 1\<rparr>"]
  by (simp add: gap_def initial_tally_def)

text \<open>
  Claim C7. A column that is not a heterozygous SNP column, that is, a column where the
  true bases agree or one of them is the gap symbol, leaves both phase identities as
  they were.
\<close>

theorem C7_phase_identity_frame:
  assumes "\<not> (a \<noteq> b \<and> a \<noteq> gap \<and> b \<noteq> gap)"
  shows "test_one_id (classify_column pof i a b c d st) = test_one_id st
       \<and> test_two_id (classify_column pof i a b c d st) = test_two_id st"
  using assms
  by (auto simp add: classify_column_def homozygous_site_def indel_def Let_def report_fields)

theorem C7_phase_identity_frame_witness:
  "test_one_id
     (classify_column 1 0 (CHR ''A'') gap (CHR ''C'') (CHR ''A'')
        (initial_tally\<lparr>test_one_id := 2, test_two_id := 1\<rparr>)) = 2
   \<and> test_two_id
     (classify_column 1 0 (CHR ''A'') gap (CHR ''C'') (CHR ''A'')
        (initial_tally\<lparr>test_one_id := 2, test_two_id := 1\<rparr>)) = 1
   \<and> test_one_id
     (classify_column 1 0 (CHR ''A'') (CHR ''A'') (CHR ''C'') (CHR ''A'')
        (initial_tally\<lparr>test_one_id := 2, test_two_id := 1\<rparr>)) = 2
   \<and> test_two_id
     (classify_column 1 0 (CHR ''A'') (CHR ''A'') (CHR ''C'') (CHR ''A'')
        (initial_tally\<lparr>test_one_id := 2, test_two_id := 1\<rparr>)) = 1"
  using C7_phase_identity_frame
          [where a = "CHR ''A''" and b = gap and pof = 1 and i = 0 and c = "CHR ''C''" and d = "CHR ''A''" and st = "initial_tally\<lparr>test_one_id := 2, test_two_id := 1\<rparr>"]
        C7_phase_identity_frame
          [where a = "CHR ''A''" and b = "CHR ''A''" and pof = 1 and i = 0 and c = "CHR ''C''" and d = "CHR ''A''" and st = "initial_tally\<lparr>test_one_id := 2, test_two_id := 1\<rparr>"]
  by (simp add: gap_def initial_tally_def)

text \<open>
  Claim C8. At a column where the true bases agree and the two test bases are equal and
  not the gap symbol, whether or not they equal the true base, the tally does not
  change: none of the eight counters, neither phase identity, and nothing is printed.
\<close>

theorem C8_homozygous_agreeing_tests:
  assumes "a = b" and "c \<noteq> gap" and "d \<noteq> gap" and "c = d"
  shows "classify_column pof i a b c d st = st"
  using assms by (simp add: classify_column_def homozygous_site_def)

theorem C8_homozygous_agreeing_tests_witness:
  "CHR ''T'' \<noteq> gap
   \<and> classify_column 1 4 (CHR ''A'') (CHR ''A'') (CHR ''T'') (CHR ''T'') initial_tally
       = initial_tally"
  using C8_homozygous_agreeing_tests
          [where a = "CHR ''A''" and b = "CHR ''A''" and c = "CHR ''T''" and d = "CHR ''T''" and pof = 1 and i = 4 and st = initial_tally]
  by (simp add: gap_def)

section \<open>The column loop and the switch counts\<close>

lemma previous_match_0: "previous_match t1 t2 s 0 = None"
  by (simp add: previous_match_def)

lemma previous_match_Suc:
  "previous_match t1 t2 s (Suc i) =
     (case matched_at t1 t2 s i of Some m \<Rightarrow> Some m | None \<Rightarrow> previous_match t1 t2 s i)"
  by (auto simp add: previous_match_def split: option.splits)

lemma switches_before_Suc:
  "switches_before t1 t2 s (Suc i) =
     switches_before t1 t2 s i + (if switch_at t1 t2 s i then 1 else 0)"
  by (simp add: switches_before_def)

lemma switches_before_le: "switches_before t1 t2 s i \<le> i"
  unfolding switches_before_def
  using length_filter_le [of "switch_at t1 t2 s" "[0..<i]"] by simp

lemma encode_eq_1: "encode p = 1 \<longleftrightarrow> p = Some Matches_true_one"
  by (cases p rule: encode.cases) simp_all

lemma encode_eq_2: "encode p = 2 \<longleftrightarrow> p = Some Matches_true_two"
  by (cases p rule: encode.cases) simp_all

lemma not_two_iff: "x \<noteq> Matches_true_two \<longleftrightarrow> x = Matches_true_one"
  by (cases x) simp_all

text \<open>
  One column moves the identity and the switch count of test haplotype 1 as the
  specification says, whatever the base of test haplotype 2 is; and the same for test
  haplotype 2.
\<close>

lemma test_one_step:
  assumes "test_one_id st = encode (previous_match t1 t2 s i)"
  shows "test_one_id (classify_column pof i (t1 ! i) (t2 ! i) (s ! i) d st) =
           encode (previous_match t1 t2 s (Suc i))
       \<and> test_one_switches (classify_column pof i (t1 ! i) (t2 ! i) (s ! i) d st) =
           test_one_switches st + (if switch_at t1 t2 s i then 1 else 0)"
proof (cases "het_snp_column t1 t2 i")
  case False
  then have m: "matched_at t1 t2 s i = None"
    by (simp add: matched_at_def)
  from False show ?thesis
    using assms
    by (auto simp add: m previous_match_Suc switch_at_def het_snp_column_def
          classify_column_def homozygous_site_def indel_def Let_def report_fields)
next
  case True
  then have col: "classify_column pof i (t1 ! i) (t2 ! i) (s ! i) d st =
      check_test_two pof i (t1 ! i) (t2 ! i) d (check_test_one pof i (t1 ! i) (t2 ! i) (s ! i) st)"
    by (simp add: classify_column_def heterozygous_snp_def het_snp_column_def)
  have two: "test_one_id (check_test_two pof i a b d st') = test_one_id st'
             \<and> test_one_switches (check_test_two pof i a b d st') = test_one_switches st'"
    for a b st'
    by (simp add: check_test_two_def Let_def report_fields)
  from True have ne: "t1 ! i \<noteq> t2 ! i"
    by (simp add: het_snp_column_def)
  show ?thesis
    using assms True ne
    by (auto simp add: col two previous_match_Suc switch_at_def matched_at_def
          check_test_one_def Let_def report_fields encode_eq_1 encode_eq_2 not_two_iff
          split: option.splits)
qed

lemma test_two_step:
  assumes "test_two_id st = encode (previous_match t1 t2 s i)"
  shows "test_two_id (classify_column pof i (t1 ! i) (t2 ! i) c (s ! i) st) =
           encode (previous_match t1 t2 s (Suc i))
       \<and> test_two_switches (classify_column pof i (t1 ! i) (t2 ! i) c (s ! i) st) =
           test_two_switches st + (if switch_at t1 t2 s i then 1 else 0)"
proof (cases "het_snp_column t1 t2 i")
  case False
  then have m: "matched_at t1 t2 s i = None"
    by (simp add: matched_at_def)
  from False show ?thesis
    using assms
    by (auto simp add: m previous_match_Suc switch_at_def het_snp_column_def
          classify_column_def homozygous_site_def indel_def Let_def report_fields)
next
  case True
  then have col: "classify_column pof i (t1 ! i) (t2 ! i) c (s ! i) st =
      check_test_two pof i (t1 ! i) (t2 ! i) (s ! i) (check_test_one pof i (t1 ! i) (t2 ! i) c st)"
    by (simp add: classify_column_def heterozygous_snp_def het_snp_column_def)
  have one: "test_two_id (check_test_one pof i a b c st') = test_two_id st'
             \<and> test_two_switches (check_test_one pof i a b c st') = test_two_switches st'"
    for a b st'
    by (simp add: check_test_one_def Let_def report_fields)
  from True have ne: "t1 ! i \<noteq> t2 ! i"
    by (simp add: het_snp_column_def)
  show ?thesis
    using assms True ne
    by (auto simp add: col one previous_match_Suc switch_at_def matched_at_def
          check_test_two_def Let_def report_fields encode_eq_1 encode_eq_2 not_two_iff
          split: option.splits)
qed

lemma loop_inv_step:
  assumes "loop_inv al i st"
  shows "loop_inv al (Suc i)
           (classify_column pof i (true_one al ! i) (true_two al ! i) (test_one al ! i)
              (test_two al ! i) st)"
  using assms
    test_one_step [of st "true_one al" "true_two al" "test_one al" i pof "test_two al ! i"]
    test_two_step [of st "true_one al" "true_two al" "test_two al" i pof "test_one al ! i"]
  by (simp add: loop_inv_def switches_before_Suc)

text \<open>A base of test haplotype 2 that the source does not read has no effect.\<close>

lemma classify_column_unread:
  assumes "\<not> reads_test_two a b c"
  shows "classify_column pof i a b c d st = classify_column pof i a b c d' st"
  using assms by (auto simp add: reads_test_two_def classify_column_def indel_def Let_def)

declare iterate.simps [simp del]

lemma iterate_step:
  assumes "i < length (true_one al)"
    and "length (true_one al) \<le> length (true_two al)"
    and "length (true_one al) \<le> length (test_one al)"
    and "length (true_one al) \<le> length (test_two al)"
  shows "iterate pof al i st =
         iterate pof al (Suc i)
           (classify_column pof i (true_one al ! i) (true_two al ! i) (test_one al ! i)
              (test_two al ! i) st)"
proof (cases "reads_test_two (true_one al ! i) (true_two al ! i) (test_one al ! i)")
  case True
  with assms show ?thesis
    by (subst iterate.simps) (simp add: at_def)
next
  case False
  with assms show ?thesis
    using classify_column_unread [OF False, of pof i "test_one al ! i" st "test_two al ! i"]
    by (subst iterate.simps) (simp add: at_def)
qed

lemma iterate_stop: "length (true_one al) \<le> i \<Longrightarrow> iterate pof al i st = Some st"
  by (subst iterate.simps) simp

lemma iterate_inv:
  assumes "length (true_one al) \<le> length (true_two al)"
    and "length (true_one al) \<le> length (test_one al)"
    and "length (true_one al) \<le> length (test_two al)"
  shows "n = length (true_one al) - i \<Longrightarrow> loop_inv al i st \<Longrightarrow> i \<le> length (true_one al) \<Longrightarrow>
         \<exists>st'. iterate pof al i st = Some st' \<and> loop_inv al (length (true_one al)) st'"
proof (induction n arbitrary: i st)
  case 0
  then show ?case by (simp add: iterate_stop)
next
  case (Suc n)
  then have lt: "i < length (true_one al)" by simp
  have "n = length (true_one al) - Suc i" using Suc.prems by simp
  from Suc.IH [OF this loop_inv_step [OF Suc.prems(2)]] lt
  show ?case by (simp add: iterate_step [OF lt assms])
qed

lemma unset_never_switches:
  "test_one_id st = 0 \<Longrightarrow>
     test_one_switches (classify_column pof i a b c d st) = test_one_switches st"
  "test_two_id st = 0 \<Longrightarrow>
     test_two_switches (classify_column pof i a b c d st) = test_two_switches st"
  by (auto simp add: classify_column_def homozygous_site_def heterozygous_snp_def
        check_test_one_def check_test_two_def indel_def Let_def report_fields)

text \<open>
  Claim C2. On aligned sequences (none of the three others shorter than true haplotype
  1) the column loop returns, and the switch count of each test haplotype is the number
  of heterozygous SNP columns at which the true haplotype matched by its base differs
  from the one matched at the nearest preceding heterozygous SNP column where it matched
  one; as a number when the alignment has fewer than \<open>2 ^ 64\<close> columns, as the counter
  wraps. A column met with the phase identity still unset adds no switch.
\<close>

theorem C2_switch_count:
  assumes "length (true_one al) \<le> length (true_two al)"
    and "length (true_one al) \<le> length (test_one al)"
    and "length (true_one al) \<le> length (test_two al)"
  shows "(\<exists>st. iterate pof al 0 initial_tally = Some st
            \<and> test_one_switches st =
                of_nat (switch_count_spec (true_one al) (true_two al) (test_one al))
            \<and> test_two_switches st =
                of_nat (switch_count_spec (true_one al) (true_two al) (test_two al))
            \<and> (length (true_one al) < 2 ^ 64 \<longrightarrow>
                   unat (test_one_switches st) =
                     switch_count_spec (true_one al) (true_two al) (test_one al)
                 \<and> unat (test_two_switches st) =
                     switch_count_spec (true_one al) (true_two al) (test_two al)))
       \<and> (\<forall>j a b c d s.
             (test_one_id s = 0 \<longrightarrow>
                test_one_switches (classify_column pof j a b c d s) = test_one_switches s)
           \<and> (test_two_id s = 0 \<longrightarrow>
                test_two_switches (classify_column pof j a b c d s) = test_two_switches s))"
proof -
  have init: "loop_inv al 0 initial_tally"
    by (simp add: loop_inv_def initial_tally_def previous_match_0 switches_before_def)
  from iterate_inv [OF assms refl init]
  obtain st where run: "iterate pof al 0 initial_tally = Some st"
    and inv: "loop_inv al (length (true_one al)) st"
    by auto
  have one: "test_one_switches st =
               of_nat (switch_count_spec (true_one al) (true_two al) (test_one al))"
    and two: "test_two_switches st =
               of_nat (switch_count_spec (true_one al) (true_two al) (test_two al))"
    using inv by (simp_all add: loop_inv_def switch_count_spec_def switches_before_def)
  have small: "unat (of_nat (switch_count_spec (true_one al) (true_two al) s) :: 64 word)
                 = switch_count_spec (true_one al) (true_two al) s"
    if "length (true_one al) < 2 ^ 64" for s
  proof -
    have "switch_count_spec (true_one al) (true_two al) s \<le> length (true_one al)"
      using switches_before_le [of "true_one al" "true_two al" s "length (true_one al)"]
      by (simp add: switch_count_spec_def switches_before_def)
    with that have "switch_count_spec (true_one al) (true_two al) s < 2 ^ 64" by simp
    then show ?thesis by (simp add: unat_of_nat)
  qed
  have loop: "\<exists>st. iterate pof al 0 initial_tally = Some st
            \<and> test_one_switches st =
                of_nat (switch_count_spec (true_one al) (true_two al) (test_one al))
            \<and> test_two_switches st =
                of_nat (switch_count_spec (true_one al) (true_two al) (test_two al))
            \<and> (length (true_one al) < 2 ^ 64 \<longrightarrow>
                   unat (test_one_switches st) =
                     switch_count_spec (true_one al) (true_two al) (test_one al)
                 \<and> unat (test_two_switches st) =
                     switch_count_spec (true_one al) (true_two al) (test_two al))"
    using run one two small by auto
  show ?thesis
    using loop unset_never_switches by blast
qed

theorem C2_switch_count_witness:
  "\<exists>st. iterate 1
          (initial_alignment\<lparr>true_one := ''ACGA-T'', true_two := ''CAGC-A'',
             test_one := ''AAGNTT'', test_two := ''CCGCAA''\<rparr>) 0 initial_tally = Some st
        \<and> unat (test_one_switches st) = 2 \<and> unat (test_two_switches st) = 2"
proof -
  have one: "switch_count_spec ''ACGA-T'' ''CAGC-A'' ''AAGNTT'' = 2" by code_simp
  have two: "switch_count_spec ''ACGA-T'' ''CAGC-A'' ''CCGCAA'' = 2" by code_simp
  show ?thesis
    using C2_switch_count
            [where al = "initial_alignment\<lparr>true_one := ''ACGA-T'', true_two := ''CAGC-A'',
               test_one := ''AAGNTT'', test_two := ''CCGCAA''\<rparr>" and pof = 1]
    by (auto simp add: one two)
qed

section \<open>The alignment loader\<close>

lemma at_0_header: "at l 0 = Some (CHR ''>'') \<longleftrightarrow> is_header l"
  by (cases l) (auto simp add: at_def is_header_def)

text \<open>\<^verbatim>\<open>find\<close> from position 1 succeeds exactly when the header text contains the prefix.\<close>

lemma search_sublist: "search str s pos = None \<longleftrightarrow> \<not> sublist str s"
  by (induction s arbitrary: pos) (simp_all add: sublist_Cons_right)

lemma find_str_header:
  "is_header l \<Longrightarrow> find_str l p (Suc 0) = None \<longleftrightarrow> \<not> sublist p (drop 1 l)"
  by (cases l) (simp_all add: find_str_def search_sublist is_header_def)

lemma read_line_header: "is_header l \<Longrightarrow> read_line p l al = start_record p (drop 1 l) al"
  by (simp add: read_line_def at_0_header start_record_def find_str_header del: not_None_eq)

lemma read_line_sequence: "\<not> is_header l \<Longrightarrow> read_line p l al = append_current l al"
  by (simp add: read_line_def at_0_header append_current_def)

lemma append_current_Nil: "append_current [] al = al"
  by (simp add: append_current_def)

lemma append_current_append:
  "append_current (x @ y) al = append_current y (append_current x al)"
  by (simp add: append_current_def)

text \<open>Reading line by line is loading record by record.\<close>

lemma read_records_fold:
  "read_records p ls al =
     fold (load_record p) (fasta_records ls)
       (append_current (concat (takeWhile (\<lambda>x. \<not> is_header x) ls)) al)"
proof (induction ls arbitrary: al)
  case Nil
  show ?case by (simp add: append_current_Nil)
next
  case (Cons l ls)
  show ?case
  proof (cases "is_header l")
    case True
    then show ?thesis
      by (simp add: Cons.IH read_line_header load_record_def append_current_Nil)
  next
    case False
    then show ?thesis
      by (simp add: Cons.IH read_line_sequence append_current_append)
  qed
qed

lemma read_records_initial:
  "read_records p ls initial_alignment =
     fold (load_record p) (fasta_records ls) initial_alignment"
proof -
  have "append_current s initial_alignment = initial_alignment" for s
    by (simp add: append_current_def initial_alignment_def)
  then show ?thesis by (simp add: read_records_fold)
qed

text \<open>The slots of a class see only the records of that class.\<close>

lemma true_slots_load:
  "true_slots (load_record p r al) =
     (if names_true p r then fill r (true_slots al) else true_slots al)"
  by (cases r)
     (simp add: load_record_def start_record_def append_current_def true_slots_def
        names_true_def)

lemma test_slots_load:
  "test_slots (load_record p r al) =
     (if names_true p r then test_slots al else fill r (test_slots al))"
  by (cases r)
     (simp add: load_record_def start_record_def append_current_def test_slots_def
        names_true_def)

lemma true_slots_fold:
  "true_slots (fold (load_record p) rs al) =
     fold fill (filter (names_true p) rs) (true_slots al)"
  by (induction rs arbitrary: al) (simp_all add: true_slots_load)

lemma test_slots_fold:
  "test_slots (fold (load_record p) rs al) =
     fold fill (filter (\<lambda>r. \<not> names_true p r) rs) (test_slots al)"
  by (induction rs arbitrary: al) (simp_all add: test_slots_load)

lemma fold_fill_taken:
  "h1 \<noteq> [] \<Longrightarrow>
   fold fill rs ((h1, s1), (h2, s2)) =
     ((h1, s1), (if rs = [] then h2 else fst (last rs), s2 @ concat (map snd rs)))"
proof (induction rs arbitrary: h2 s2)
  case Nil
  show ?case by simp
next
  case (Cons r rs)
  obtain h s where r: "r = (h, s)" by (cases r)
  show ?case using Cons.prems by (simp add: r Cons.IH)
qed

lemma fold_fill_empty:
  "fst r \<noteq> [] \<Longrightarrow>
   fold fill (r # rs) (([], []), ([], [])) =
     (r, (if rs = [] then [] else fst (last rs), concat (map snd rs)))"
  by (cases r) (simp add: fold_fill_taken)

lemma true_slots_read:
  "true_slots (read_records p ls initial_alignment) =
     fold fill (true_records p ls) (([], []), ([], []))"
  by (simp add: read_records_initial true_slots_fold true_records_def)
     (simp add: true_slots_def initial_alignment_def)

lemma test_slots_read:
  "test_slots (read_records p ls initial_alignment) =
     fold fill (test_records p ls) (([], []), ([], []))"
  by (simp add: read_records_initial test_slots_fold test_records_def)
     (simp add: test_slots_def initial_alignment_def)

lemma slots_first_two:
  fixes sl :: slots
  assumes "sl = fold fill rs (([], []), ([], []))" and "rs \<noteq> []" and "fst (hd rs) \<noteq> []"
  shows "fst sl = rs ! 0 \<and> (length rs = 2 \<longrightarrow> snd sl = rs ! 1)"
proof (cases rs)
  case Nil
  with assms show ?thesis by simp
next
  case (Cons r rest)
  with assms have "sl = (r, (if rest = [] then [] else fst (last rest), concat (map snd rest)))"
    using fold_fill_empty [of r rest] by simp
  then show ?thesis
    by (cases rest) (simp_all add: Cons)
qed

lemma slots_later:
  fixes sl :: slots
  assumes "sl = fold fill rs (([], []), ([], []))" and "2 < length rs" and "fst (hd rs) \<noteq> []"
  shows "snd sl = (fst (last rs), concat (map snd (tl rs)))"
proof (cases rs)
  case Nil
  with assms show ?thesis by simp
next
  case (Cons r rest)
  with assms have "sl = (r, (if rest = [] then [] else fst (last rest), concat (map snd rest)))"
    using fold_fill_empty [of r rest] by simp
  moreover from assms Cons have "rest \<noteq> []" by auto
  ultimately show ?thesis
    by (simp add: Cons)
qed

text \<open>
  Claim C3, as the program has it. For each header class whose first record has a header
  text that is not empty: the first record of the class becomes haplotype 1 of the class,
  header and sequence; and when the class has exactly two records, the second becomes
  haplotype 2 of the class.
\<close>

theorem C3_first_two_records_amended:
  "(true_records p ls \<noteq> [] \<and> fst (hd (true_records p ls)) \<noteq> [] \<longrightarrow>
      (true_one_header (read_records p ls initial_alignment),
       true_one (read_records p ls initial_alignment)) = true_records p ls ! 0
    \<and> (length (true_records p ls) = 2 \<longrightarrow>
         (true_two_header (read_records p ls initial_alignment),
          true_two (read_records p ls initial_alignment)) = true_records p ls ! 1))
 \<and> (test_records p ls \<noteq> [] \<and> fst (hd (test_records p ls)) \<noteq> [] \<longrightarrow>
      (test_one_header (read_records p ls initial_alignment),
       test_one (read_records p ls initial_alignment)) = test_records p ls ! 0
    \<and> (length (test_records p ls) = 2 \<longrightarrow>
         (test_two_header (read_records p ls initial_alignment),
          test_two (read_records p ls initial_alignment)) = test_records p ls ! 1))"
  using slots_first_two [OF true_slots_read [of p ls]]
        slots_first_two [OF test_slots_read [of p ls]]
  by (simp add: true_slots_def test_slots_def)

theorem C3_first_two_records_amended_witness:
  "true_one_header (read_records ''T''
      [''>T1'', ''AC'', ''>x'', ''AG'', ''>T2'', ''A'', ''G'', ''>y'', ''AC''] initial_alignment) = ''T1''
   \<and> true_one (read_records ''T''
      [''>T1'', ''AC'', ''>x'', ''AG'', ''>T2'', ''A'', ''G'', ''>y'', ''AC''] initial_alignment) = ''AC''
   \<and> true_two_header (read_records ''T''
      [''>T1'', ''AC'', ''>x'', ''AG'', ''>T2'', ''A'', ''G'', ''>y'', ''AC''] initial_alignment) = ''T2''
   \<and> true_two (read_records ''T''
      [''>T1'', ''AC'', ''>x'', ''AG'', ''>T2'', ''A'', ''G'', ''>y'', ''AC''] initial_alignment) = ''AG''
   \<and> test_one_header (read_records ''T''
      [''>T1'', ''AC'', ''>x'', ''AG'', ''>T2'', ''A'', ''G'', ''>y'', ''AC''] initial_alignment) = ''x''
   \<and> test_one (read_records ''T''
      [''>T1'', ''AC'', ''>x'', ''AG'', ''>T2'', ''A'', ''G'', ''>y'', ''AC''] initial_alignment) = ''AG''
   \<and> test_two_header (read_records ''T''
      [''>T1'', ''AC'', ''>x'', ''AG'', ''>T2'', ''A'', ''G'', ''>y'', ''AC''] initial_alignment) = ''y''
   \<and> test_two (read_records ''T''
      [''>T1'', ''AC'', ''>x'', ''AG'', ''>T2'', ''A'', ''G'', ''>y'', ''AC''] initial_alignment) = ''AC''"
proof -
  have trues: "true_records ''T''
      [''>T1'', ''AC'', ''>x'', ''AG'', ''>T2'', ''A'', ''G'', ''>y'', ''AC'']
        = [(''T1'', ''AC''), (''T2'', ''AG'')]"
    by code_simp
  have tests: "test_records ''T''
      [''>T1'', ''AC'', ''>x'', ''AG'', ''>T2'', ''A'', ''G'', ''>y'', ''AC'']
        = [(''x'', ''AG''), (''y'', ''AC'')]"
    by code_simp
  show ?thesis
    using C3_first_two_records_amended
            [of "''T''" "[''>T1'', ''AC'', ''>x'', ''AG'', ''>T2'', ''A'', ''G'', ''>y'', ''AC'']"]
    by (simp add: trues tests)
qed

text \<open>
  Claim C3 as the specification states it fails on the lines below, read with the
  prefix \<open>T\<close>. The second true record is \<open>T2\<close> with sequence \<open>CC\<close>, but a third true
  record follows and true haplotype 2 ends as \<open>T3\<close> with sequence \<open>CCGG\<close>. The first test
  record has an empty header text, so the second test record \<open>x\<close> is taken for the first
  again and test haplotype 2 stays empty.
\<close>

theorem C3_first_two_records_counterexample:
  "true_records ''T''
     [''>T1'', ''AA'', ''>T2'', ''CC'', ''>T3'', ''GG'', ''>'', ''TT'', ''>x'', ''AC''] ! 1
     = (''T2'', ''CC'')
   \<and> test_records ''T''
     [''>T1'', ''AA'', ''>T2'', ''CC'', ''>T3'', ''GG'', ''>'', ''TT'', ''>x'', ''AC''] ! 1
     = (''x'', ''AC'')
   \<and> (true_two_header (read_records ''T''
          [''>T1'', ''AA'', ''>T2'', ''CC'', ''>T3'', ''GG'', ''>'', ''TT'', ''>x'', ''AC'']
          initial_alignment),
       true_two (read_records ''T''
          [''>T1'', ''AA'', ''>T2'', ''CC'', ''>T3'', ''GG'', ''>'', ''TT'', ''>x'', ''AC'']
          initial_alignment)) = (''T3'', ''CCGG'')
   \<and> (test_two_header (read_records ''T''
          [''>T1'', ''AA'', ''>T2'', ''CC'', ''>T3'', ''GG'', ''>'', ''TT'', ''>x'', ''AC'']
          initial_alignment),
       test_two (read_records ''T''
          [''>T1'', ''AA'', ''>T2'', ''CC'', ''>T3'', ''GG'', ''>'', ''TT'', ''>x'', ''AC'']
          initial_alignment)) = ([], [])"
  by code_simp

text \<open>
  Once the first slot of a class has a header text that is not empty, every later
  record of the class goes to the second slot: with more than two records in a class
  whose first record has such a header, the header of the second slot ends as the header
  of the last record of the class, and its sequence as the sequences of the second and
  all later records of the class, in file order.
\<close>

lemma later_records_second_slot:
  "(2 < length (true_records p ls) \<and> fst (hd (true_records p ls)) \<noteq> [] \<longrightarrow>
      true_two_header (read_records p ls initial_alignment) = fst (last (true_records p ls))
    \<and> true_two (read_records p ls initial_alignment) =
        concat (map snd (tl (true_records p ls))))
 \<and> (2 < length (test_records p ls) \<and> fst (hd (test_records p ls)) \<noteq> [] \<longrightarrow>
      test_two_header (read_records p ls initial_alignment) = fst (last (test_records p ls))
    \<and> test_two (read_records p ls initial_alignment) =
        concat (map snd (tl (test_records p ls))))"
  using slots_later [OF true_slots_read [of p ls]]
        slots_later [OF test_slots_read [of p ls]]
  by (simp add: true_slots_def test_slots_def)

text \<open>
  The step behind it, in the words of the claim: a record read when the header of the
  first slot of its class is not empty replaces the header of the second slot and is
  appended to the sequence of the second slot.
\<close>

lemma record_goes_to_second_slot:
  "names_true p (h, s) \<Longrightarrow> true_one_header al \<noteq> [] \<Longrightarrow>
     true_slots (load_record p (h, s) al) =
       ((true_one_header al, true_one al), (h, true_two al @ s))"
  "\<not> names_true p (h, s) \<Longrightarrow> test_one_header al \<noteq> [] \<Longrightarrow>
     test_slots (load_record p (h, s) al) =
       ((test_one_header al, test_one al), (h, test_two al @ s))"
  by (simp_all add: true_slots_load test_slots_load) (simp_all add: true_slots_def test_slots_def)

text \<open>
  Claim C10 fails in the program on the six lines below, read with the prefix \<open>T\<close>.
  They hold three test records; the first two have an empty header text and the third
  is \<open>y\<close> with sequence \<open>GG\<close>. The program tells that the first slot is free by its
  header being empty (lines 116 and 124), so the third record goes through the branch
  commented \<^verbatim>\<open>First test haplotype record\<close>: it becomes the header of test haplotype
  1 and is appended to the sequence of test haplotype 1, while the header and the
  sequence of test haplotype 2 stay empty.
\<close>

theorem C10_empty_header_third_record:
  "test_records ''T'' [''>'', ''AA'', ''>'', ''CC'', ''>y'', ''GG'']
     = [([], ''AA''), ([], ''CC''), (''y'', ''GG'')]
   \<and> test_two_header
       (read_records ''T'' [''>'', ''AA'', ''>'', ''CC'', ''>y'', ''GG''] initial_alignment) = []
   \<and> test_two
       (read_records ''T'' [''>'', ''AA'', ''>'', ''CC'', ''>y'', ''GG''] initial_alignment) = []
   \<and> test_one_header
       (read_records ''T'' [''>'', ''AA'', ''>'', ''CC'', ''>y'', ''GG''] initial_alignment) = ''y''
   \<and> test_one
       (read_records ''T'' [''>'', ''AA'', ''>'', ''CC'', ''>y'', ''GG''] initial_alignment)
       = ''AACCGG''"
  by code_simp

section \<open>Exit codes\<close>

text \<open>The exit code is 0 exactly when the run reaches the result lines.\<close>

lemma exit_code_zero_iff_results:
  "exit_code (main results operand open_file) = Some 0
     \<longleftrightarrow> (\<exists>st. main results operand open_file = Results st)"
proof (cases operand)
  case None
  then show ?thesis by (simp add: main_def)
next
  case (Some path)
  show ?thesis
  proof (cases "open_file path")
    case None
    with Some show ?thesis by (simp add: main_def)
  next
    case (Some f)
    note f = \<open>operand = Some path\<close> Some
    show ?thesis
      by (cases "iterate (position_output_flag (parse_options results initial_arguments))
                   (read_records (true_prefix (parse_options results initial_arguments))
                      (getlines (characters f)) initial_alignment) 0 initial_tally")
         (auto simp add: main_def f Let_def)
  qed
qed

text \<open>
  The codes of the other returns: 5 for a file that cannot be opened and 6 for a
  missing path, whatever the options were; 7 for a read error, met only when the
  arguments raised nothing.
\<close>

lemma exit_code_missing_path: "exit_code (main results None open_file) = Some 6"
  by (simp add: main_def)

lemma exit_code_unreadable_file:
  "open_file path = None \<Longrightarrow> exit_code (main results (Some path) open_file) = Some 5"
  by (simp add: main_def)

lemma exit_code_read_error:
  "open_file path = Some f \<Longrightarrow> helpflag (parse_options results initial_arguments) = 0 \<Longrightarrow>
   read_error f \<Longrightarrow> exit_code (main results (Some path) open_file) = Some 7"
  by (simp add: main_def Let_def)

text \<open>
  On what \<^verbatim>\<open>getopt_long\<close> returns, the argument loop leaves \<^verbatim>\<open>helpflag\<close> as it was or
  stores 1 or 4 in it. The 3 of line 79 is never stored, and no run exits with 3.
\<close>

lemma parse_option_getopt_long:
  "helpflag (parse_option (getopt_long x) ar) \<in> {helpflag ar, 1, 4}"
  by (cases x) simp_all

lemma parse_options_getopt_long:
  "helpflag (parse_options (map getopt_long xs) ar) \<in> {helpflag ar, 1, 4}"
proof (induction xs arbitrary: ar)
  case Nil
  show ?case by simp
next
  case (Cons x xs)
  from Cons.IH [of "parse_option (getopt_long x) ar"] parse_option_getopt_long [of x ar]
  show ?case by auto
qed

lemma exit_code_3_unreachable:
  "exit_code (main (map getopt_long xs) operand open_file) \<noteq> Some 3"
proof (cases operand)
  case None
  then show ?thesis by (simp add: main_def)
next
  case (Some path)
  show ?thesis
  proof (cases "open_file path")
    case None
    with Some show ?thesis by (simp add: main_def)
  next
    case (Some f)
    note f = \<open>operand = Some path\<close> Some
    have h: "helpflag (parse_options (map getopt_long xs) initial_arguments) \<in> {0, 1, 4}"
      using parse_options_getopt_long [of xs initial_arguments]
      by (simp add: initial_arguments_def)
    show ?thesis
      using h
      by (cases "iterate
                   (position_output_flag (parse_options (map getopt_long xs) initial_arguments))
                   (read_records
                      (true_prefix (parse_options (map getopt_long xs) initial_arguments))
                      (getlines (characters f)) initial_alignment) 0 initial_tally")
         (auto simp add: main_def f Let_def)
  qed
qed

text \<open>
  Claim C9 fails in the program for the missing prefix argument. Lines 77 to 80 give it
  a code of its own, 3, under the test \<^verbatim>\<open>optarg == 0\<close> in the case \<open>p\<close>; but for the
  command line \<^verbatim>\<open>HapSNPeval in.fa -p\<close>, where \<^verbatim>\<open>in.fa\<close> can be read,
  \<^verbatim>\<open>getopt_long\<close> returns \<open>?\<close>, the run takes the default case and exits with 4: the
  code that the command line \<^verbatim>\<open>HapSNPeval in.fa -x\<close>, with an option that is not
  recognised, exits with.
\<close>

theorem C9_missing_prefix_argument_exit_code:
  "exit_code (main (map getopt_long [True_prefix_without_argument]) (Some ''in.fa'')
      (\<lambda>path. Some \<lparr>characters = [], read_error = False\<rparr>)) = Some 4
   \<and> exit_code (main (map getopt_long [Unrecognised_option]) (Some ''in.fa'')
      (\<lambda>path. Some \<lparr>characters = [], read_error = False\<rparr>)) = Some 4"
  by (simp add: main_def initial_arguments_def Let_def)

end
